theory Spec2Isabelle
  imports Main
begin

section \<open>The bookmarks cog of tux (tux/cogs/services/bookmarks.py)\<close>

text \<open>
  The cog handles one callback of the host library, \<open>on_raw_reaction_add\<close>. Everything it
  does is a call into the host library (the bot's cache, network fetches, sends, deletes,
  the logger, the embed creator). The embedding makes these calls explicit: the handler
  returns the list of calls it made, in order, together with its outcome (a normal return
  or the exception that left it). What each call of the host answers is a parameter, the
  record \<open>host\<close>.
\<close>

subsection \<open>Python strings\<close>

text \<open>
  A Python \<open>str\<close> is a sequence of Unicode code points, and \<open>len\<close>, slicing and \<open>in\<close> count
  code points. The emoji the cog works with lie outside ASCII, so a string is a list of
  code points; \<open>str_of\<close> embeds an ASCII literal.
\<close>

type_synonym pystr = "nat list"

definition str_of :: "string \<Rightarrow> pystr" where
  "str_of s = map of_char s"

text \<open>\<open>s.startswith(sub)\<close>, and \<open>sub in s\<close>: \<open>sub\<close> occurs at some position of \<open>s\<close>.\<close>

fun startswith :: "pystr \<Rightarrow> pystr \<Rightarrow> bool" where
  "startswith s [] = True"
| "startswith [] (x # sub) = False"
| "startswith (y # s) (x # sub) = (x = y \<and> startswith s sub)"

fun str_in :: "pystr \<Rightarrow> pystr \<Rightarrow> bool" where
  "str_in sub [] = (sub = [])"
| "str_in sub (y # s) = (startswith (y # s) sub \<or> str_in sub s)"

text \<open>
  The slice \<open>s[:k]\<close> for any integer \<open>k\<close>: a negative \<open>k\<close> counts from the end, and a bound
  outside the string is clipped.
\<close>

definition slice_to :: "pystr \<Rightarrow> int \<Rightarrow> pystr" where
  "slice_to s k = (if 0 \<le> k then take (nat k) s else take (nat (int (length s) + k)) s)"

text \<open>\<open>sep.join(xs)\<close>\<close>

fun join :: "pystr \<Rightarrow> pystr list \<Rightarrow> pystr" where
  "join sep [] = []"
| "join sep [x] = x"
| "join sep (x # y # ys) = x @ sep @ join sep (y # ys)"

subsection \<open>The objects of the host library\<close>

text \<open>
  \<open>tux.utils.constants.CONST\<close> is not part of the module; the three constants the cog reads
  are parameters. \<open>EMBED_MAX_DESC_LENGTH\<close> is a Python int.
\<close>

record const =
  ADD_BOOKMARK :: pystr
  REMOVE_BOOKMARK :: pystr
  EMBED_MAX_DESC_LENGTH :: int

record partial_emoji =
  emoji_name :: pystr

text \<open>
  The cog compares users with \<open>is\<close>, which is object identity: \<open>user_obj\<close> is the identity
  of the Python object.
\<close>

record user =
  user_obj :: nat
  user_name :: pystr
  user_mention :: pystr

record text_channel =
  ch_id :: nat

record attachment =
  url :: pystr

record message =
  msg_id :: nat
  content :: pystr
  author :: user
  jump_url :: pystr
  attachments :: "attachment list"
  channel :: text_channel

record payload =
  emoji :: partial_emoji
  user_id :: nat
  channel_id :: nat
  message_id :: nat

datatype embed_type = INFO

record embed_field =
  field_name :: pystr
  field_value :: pystr
  inline :: bool

record embed =
  embed_type :: embed_type
  title :: pystr
  description :: pystr
  embed_fields :: "embed_field list"

text \<open>
  The exceptions of the host library. \<open>NotFound\<close> and \<open>Forbidden\<close> are subclasses of
  \<open>HTTPException\<close>; the constructor \<open>HTTPException\<close> stands for an instance that is neither.
  \<open>OtherException\<close> is any exception outside that family.
\<close>

datatype exn = NotFound | Forbidden | HTTPException | OtherException nat

fun isinstance_HTTPException :: "exn \<Rightarrow> bool" where
  "isinstance_HTTPException (OtherException n) = False"
| "isinstance_HTTPException e = True"

text \<open>
  The host: the bot's own user, its caches, and the answer of every network call, an
  exception (\<open>Inl\<close>) or a value (\<open>Inr\<close>).
\<close>

record host =
  bot_user :: "user option"
  get_user :: "nat \<Rightarrow> user option"
  fetch_user :: "nat \<Rightarrow> exn + user"
  get_channel :: "nat \<Rightarrow> text_channel option"
  fetch_channel :: "nat \<Rightarrow> exn + text_channel"
  fetch_message :: "text_channel \<Rightarrow> nat \<Rightarrow> exn + message"
  user_send :: "user \<Rightarrow> embed \<Rightarrow> exn + message"
  add_reaction :: "message \<Rightarrow> pystr \<Rightarrow> exn + unit"
  channel_send :: "text_channel \<Rightarrow> pystr \<Rightarrow> exn + message"
  message_delete :: "message \<Rightarrow> nat option \<Rightarrow> exn + unit"

text \<open>The messages handed to \<open>logger.error\<close>, by the f-string that builds them.\<close>

datatype log_msg =
  User_not_found nat
| Failed_to_fetch_user exn
| Channel_not_found nat
| Failed_to_fetch_channel exn
| Message_not_found nat
| Failed_to_fetch_message exn
| Cannot_send_a_DM pystr exn

text \<open>The calls into the host, as the handler makes them.\<close>

datatype event =
  is_Get_user: Get_user nat
| is_Fetch_user: Fetch_user nat
| is_Get_channel: Get_channel nat
| is_Fetch_channel: Fetch_channel nat
| is_Fetch_message: Fetch_message text_channel nat
| is_Log_error: Log_error log_msg
| is_Create_embed: Create_embed embed_type pystr pystr
| is_User_send: User_send user embed
| is_Add_reaction: Add_reaction message pystr
| is_Channel_send: Channel_send text_channel pystr
| is_Message_delete: Message_delete message "nat option"

text \<open>
  What a coroutine of the cog does: the calls it made, and the exception that left it
  (\<open>Inl\<close>) or the value it returned (\<open>Inr\<close>).
\<close>

type_synonym 'a io = "event list \<times> (exn + 'a)"

definition emit :: "event \<Rightarrow> 'a io \<Rightarrow> 'a io" where
  "emit ev r = (ev # fst r, snd r)"

text \<open>\<open>a is b\<close> for a user \<open>a\<close> and \<open>self.bot.user\<close>, which is \<open>None\<close> before login.\<close>

definition is_user :: "user \<Rightarrow> user option \<Rightarrow> bool" where
  "is_user a b = (case b of None \<Rightarrow> False | Some u \<Rightarrow> user_obj a = user_obj u)"

subsection \<open>The cog\<close>

record bookmarks =
  bot :: host
  valid_add_emojis :: pystr
  valid_remove_emojis :: pystr
  valid_emojis :: pystr

definition init :: "const \<Rightarrow> host \<Rightarrow> bookmarks" where
  "init c b =
     \<lparr> bot = b,
       valid_add_emojis = ADD_BOOKMARK c,
       valid_remove_emojis = REMOVE_BOOKMARK c,
       valid_emojis = ADD_BOOKMARK c @ REMOVE_BOOKMARK c \<rparr>"

definition is_valid_emoji :: "partial_emoji \<Rightarrow> pystr \<Rightarrow> bool" where
  "is_valid_emoji em valid_list = (if str_in (emoji_name em) valid_list then True else False)"

text \<open>
  Modelled from the spec: \<open>EmbedCreator.create_embed\<close> (tux.ui.embeds) is not part of the
  module. The spec calls its result a simple display object; the model keeps the
  arguments the cog passes, and no field.
\<close>

definition create_embed :: "embed_type \<Rightarrow> pystr \<Rightarrow> pystr \<Rightarrow> embed" where
  "create_embed ty t d = \<lparr> embed_type = ty, title = t, description = d, embed_fields = [] \<rparr>"

definition add_field :: "pystr \<Rightarrow> pystr \<Rightarrow> bool \<Rightarrow> embed \<Rightarrow> embed" where
  "add_field n v i e = e\<lparr> embed_fields := embed_fields e @ [\<lparr> field_name = n, field_value = v, inline = i \<rparr>] \<rparr>"

text \<open>
  \<open>_create_bookmark_embed\<close> assigns to \<open>message.content\<close>: it returns the message as it
  is afterwards, next to the embed.
\<close>

definition create_bookmark_embed :: "const \<Rightarrow> message \<Rightarrow> event list \<times> message \<times> embed" where
  "create_bookmark_embed c message =
     (let message1 =
            (if int (length (content message)) > EMBED_MAX_DESC_LENGTH c
             then message\<lparr> content :=
                    slice_to (content message) (EMBED_MAX_DESC_LENGTH c - 3) @ str_of ''...'' \<rparr>
             else message);
          d = str_of ''> '' @ content message1;
          embed0 = create_embed INFO (str_of ''Message Bookmarked'') d;
          embed1 = add_field (str_of ''Author'') (user_name (author message1)) False embed0;
          embed2 = add_field (str_of ''Jump to Message'')
                     (str_of ''[Click Here]('' @ jump_url message1 @ str_of '')'') False embed1;
          embed3 =
            (if attachments message1 \<noteq> []
             then add_field (str_of ''Attachments'')
                    (join (str_of [CHR 0x0A]) (map url (attachments message1))) False embed2
             else embed2)
      in ([Create_embed INFO (str_of ''Message Bookmarked'') d], message1, embed3))"

definition delete_bookmark :: "bookmarks \<Rightarrow> message \<Rightarrow> user \<Rightarrow> unit io" where
  "delete_bookmark self message usr =
     (if \<not> is_user (author message) (bot_user (bot self)) then ([], Inr ())
      else emit (Message_delete message None) ([], message_delete (bot self) message None))"

definition notify_text :: "user \<Rightarrow> pystr" where
  "notify_text usr =
     user_mention usr @
     str_of '', I couldn'' @ str_of [CHR 0x27] @
     str_of ''t send you a DM. Please make sure your DMs are open for bookmarks to work.''"

text \<open>
  \<open>_send_bookmark\<close> is a static method; the host answers its calls. The handler of its
  \<open>except\<close> clause runs for every instance of \<open>HTTPException\<close>, and what the handler
  itself raises leaves the method.
\<close>

definition send_bookmark_except :: "host \<Rightarrow> user \<Rightarrow> message \<Rightarrow> exn \<Rightarrow> unit io" where
  "send_bookmark_except h usr message dm_error =
     (if isinstance_HTTPException dm_error
      then emit (Log_error (Cannot_send_a_DM (user_name usr) dm_error))
             (emit (Channel_send (channel message) (notify_text usr))
                (case channel_send h (channel message) (notify_text usr) of
                   Inl e \<Rightarrow> ([], Inl e)
                 | Inr notify_message \<Rightarrow>
                     emit (Message_delete notify_message (Some 30))
                       ([], message_delete h notify_message (Some 30))))
      else ([], Inl dm_error))"

definition send_bookmark :: "const \<Rightarrow> host \<Rightarrow> user \<Rightarrow> message \<Rightarrow> embed \<Rightarrow> partial_emoji \<Rightarrow> unit io" where
  "send_bookmark c h usr message emb em =
     emit (User_send usr emb)
       (case user_send h usr emb of
          Inl dm_error \<Rightarrow> send_bookmark_except h usr message dm_error
        | Inr dm_message \<Rightarrow>
            emit (Add_reaction dm_message (REMOVE_BOOKMARK c))
              (case add_reaction h dm_message (REMOVE_BOOKMARK c) of
                 Inl dm_error \<Rightarrow> send_bookmark_except h usr message dm_error
               | Inr u \<Rightarrow> ([], Inr ())))"

definition on_raw_reaction_add :: "const \<Rightarrow> bookmarks \<Rightarrow> payload \<Rightarrow> unit io" where
  "on_raw_reaction_add c self p =
     (if \<not> is_valid_emoji (emoji p) (valid_emojis self) then ([], Inr ())
      else emit (Get_user (user_id p))
        (case get_user (bot self) (user_id p) of
           None \<Rightarrow>
             emit (Fetch_user (user_id p))
               (case fetch_user (bot self) (user_id p) of
                  Inr usr \<Rightarrow> ([], Inr ())
                | Inl fetch_error \<Rightarrow>
                    if fetch_error = NotFound
                    then ([Log_error (User_not_found (user_id p))], Inr ())
                    else if isinstance_HTTPException fetch_error
                    then ([Log_error (Failed_to_fetch_user fetch_error)], Inr ())
                    else ([], Inl fetch_error))
         | Some usr \<Rightarrow>
             emit (Get_channel (channel_id p))
               (case get_channel (bot self) (channel_id p) of
                  None \<Rightarrow>
                    emit (Fetch_channel (channel_id p))
                      (case fetch_channel (bot self) (channel_id p) of
                         Inr ch \<Rightarrow> ([], Inr ())
                       | Inl fetch_error \<Rightarrow>
                           if fetch_error = NotFound
                           then ([Log_error (Channel_not_found (channel_id p))], Inr ())
                           else if isinstance_HTTPException fetch_error
                           then ([Log_error (Failed_to_fetch_channel fetch_error)], Inr ())
                           else ([], Inl fetch_error))
                | Some ch \<Rightarrow>
                    emit (Fetch_message ch (message_id p))
                      (case fetch_message (bot self) ch (message_id p) of
                         Inl fetch_error \<Rightarrow>
                           if fetch_error = NotFound
                           then ([Log_error (Message_not_found (message_id p))], Inr ())
                           else if isinstance_HTTPException fetch_error
                           then ([Log_error (Failed_to_fetch_message fetch_error)], Inr ())
                           else ([], Inl fetch_error)
                       | Inr message \<Rightarrow>
                           if is_valid_emoji (emoji p) (valid_add_emojis self)
                           then (case create_bookmark_embed c message of
                                   (evs, message1, emb) \<Rightarrow>
                                     (case send_bookmark c (bot self) usr message1 emb (emoji p) of
                                        (evs1, r) \<Rightarrow> (evs @ evs1, r)))
                           else if is_valid_emoji (emoji p) (valid_remove_emojis self)
                                   \<and> \<not> is_user usr (bot_user (bot self))
                           then delete_bookmark self message usr
                           else ([], Inr ())))))"

subsection \<open>The handler, step by step\<close>

text \<open>
  The calls of \<open>_is_valid_emoji\<close> are steps of the handler as well, though not calls
  into the host. \<open>on_raw_reaction_add_steps\<close> is the handler again, with every call of
  \<open>_is_valid_emoji\<close> (its two arguments and its result) recorded among the calls into the
  host, where the handler makes it: at line 40, at line 77 and, when that test fails, at
  line 84, where \<open>and\<close> evaluates it before the test on the user.
\<close>

datatype step =
  is_Classify: Classify partial_emoji pystr bool
| is_Call: Call event

fun calls_of :: "step list \<Rightarrow> event list" where
  "calls_of [] = []"
| "calls_of (Classify em l b # ss) = calls_of ss"
| "calls_of (Call ev # ss) = ev # calls_of ss"

definition then_step :: "step \<Rightarrow> step list \<times> 'a \<Rightarrow> step list \<times> 'a" where
  "then_step s r = (s # fst r, snd r)"

definition on_raw_reaction_add_steps ::
    "const \<Rightarrow> bookmarks \<Rightarrow> payload \<Rightarrow> step list \<times> (exn + unit)" where
  "on_raw_reaction_add_steps c self p =
     then_step (Classify (emoji p) (valid_emojis self)
                  (is_valid_emoji (emoji p) (valid_emojis self)))
     (if \<not> is_valid_emoji (emoji p) (valid_emojis self) then ([], Inr ())
      else then_step (Call (Get_user (user_id p)))
        (case get_user (bot self) (user_id p) of
           None \<Rightarrow>
             then_step (Call (Fetch_user (user_id p)))
               (case fetch_user (bot self) (user_id p) of
                  Inr usr \<Rightarrow> ([], Inr ())
                | Inl fetch_error \<Rightarrow>
                    if fetch_error = NotFound
                    then ([Call (Log_error (User_not_found (user_id p)))], Inr ())
                    else if isinstance_HTTPException fetch_error
                    then ([Call (Log_error (Failed_to_fetch_user fetch_error))], Inr ())
                    else ([], Inl fetch_error))
         | Some usr \<Rightarrow>
             then_step (Call (Get_channel (channel_id p)))
               (case get_channel (bot self) (channel_id p) of
                  None \<Rightarrow>
                    then_step (Call (Fetch_channel (channel_id p)))
                      (case fetch_channel (bot self) (channel_id p) of
                         Inr ch \<Rightarrow> ([], Inr ())
                       | Inl fetch_error \<Rightarrow>
                           if fetch_error = NotFound
                           then ([Call (Log_error (Channel_not_found (channel_id p)))], Inr ())
                           else if isinstance_HTTPException fetch_error
                           then ([Call (Log_error (Failed_to_fetch_channel fetch_error))], Inr ())
                           else ([], Inl fetch_error))
                | Some ch \<Rightarrow>
                    then_step (Call (Fetch_message ch (message_id p)))
                      (case fetch_message (bot self) ch (message_id p) of
                         Inl fetch_error \<Rightarrow>
                           if fetch_error = NotFound
                           then ([Call (Log_error (Message_not_found (message_id p)))], Inr ())
                           else if isinstance_HTTPException fetch_error
                           then ([Call (Log_error (Failed_to_fetch_message fetch_error))], Inr ())
                           else ([], Inl fetch_error)
                       | Inr message \<Rightarrow>
                           then_step (Classify (emoji p) (valid_add_emojis self)
                                        (is_valid_emoji (emoji p) (valid_add_emojis self)))
                           (if is_valid_emoji (emoji p) (valid_add_emojis self)
                            then (case create_bookmark_embed c message of
                                    (evs, message1, emb) \<Rightarrow>
                                      (case send_bookmark c (bot self) usr message1 emb (emoji p) of
                                         (evs1, r) \<Rightarrow> (map Call (evs @ evs1), r)))
                            else then_step (Classify (emoji p) (valid_remove_emojis self)
                                              (is_valid_emoji (emoji p) (valid_remove_emojis self)))
                              (if is_valid_emoji (emoji p) (valid_remove_emojis self)
                                  \<and> \<not> is_user usr (bot_user (bot self))
                               then (case delete_bookmark self message usr of
                                       (evs, r) \<Rightarrow> (map Call evs, r))
                               else ([], Inr ())))))))"

subsection \<open>Example values\<close>

text \<open>
  Constants for the examples: the bookmark emoji (U+1F516) adds, the wastebasket
  (U+1F5D1 with the variation selector U+FE0F) removes, and an embed description holds
  4096 characters.
\<close>

definition const0 :: const where
  "const0 = \<lparr> ADD_BOOKMARK = [0x1F516], REMOVE_BOOKMARK = [0x1F5D1, 0xFE0F],
              EMBED_MAX_DESC_LENGTH = 4096 \<rparr>"

definition tux_user :: user where
  "tux_user = \<lparr> user_obj = 1, user_name = str_of ''tux'', user_mention = str_of ''<@1>'' \<rparr>"

definition alice :: user where
  "alice = \<lparr> user_obj = 2, user_name = str_of ''alice'', user_mention = str_of ''<@42>'' \<rparr>"

definition chan0 :: text_channel where
  "chan0 = \<lparr> ch_id = 7 \<rparr>"

definition dm_chan :: text_channel where
  "dm_chan = \<lparr> ch_id = 8 \<rparr>"

text \<open>A message of alice in \<open>chan0\<close>, the bot's bookmark in her DMs, and the bot's notice.\<close>

definition msg0 :: message where
  "msg0 = \<lparr> msg_id = 9, content = str_of ''hello'', author = alice,
             jump_url = str_of ''https://discord.com/channels/5/7/9'',
             attachments = [], channel = chan0 \<rparr>"

definition dm0 :: message where
  "dm0 = \<lparr> msg_id = 10, content = [], author = tux_user, jump_url = [],
            attachments = [], channel = dm_chan \<rparr>"

definition note0 :: message where
  "note0 = \<lparr> msg_id = 11, content = [], author = tux_user, jump_url = [],
              attachments = [], channel = chan0 \<rparr>"

text \<open>A host with everything in its cache, and where every call succeeds.\<close>

definition host0 :: host where
  "host0 =
     \<lparr> bot_user = Some tux_user,
       get_user = (\<lambda>i. if i = 42 then Some alice else if i = 1 then Some tux_user else None),
       fetch_user = (\<lambda>i. if i = 42 then Inr alice else Inl NotFound),
       get_channel = (\<lambda>i. if i = 7 then Some chan0 else if i = 8 then Some dm_chan else None),
       fetch_channel = (\<lambda>i. if i = 7 then Inr chan0 else Inl NotFound),
       fetch_message = (\<lambda>ch i. if i = 9 then Inr msg0 else if i = 10 then Inr dm0
                                 else Inl NotFound),
       user_send = (\<lambda>u e. Inr dm0),
       add_reaction = (\<lambda>m e. Inr ()),
       channel_send = (\<lambda>ch t. Inr note0),
       message_delete = (\<lambda>m d. Inr ()) \<rparr>"

text \<open>The same host with an empty user cache.\<close>

definition host_no_cache :: host where
  "host_no_cache = host0\<lparr> get_user := (\<lambda>i. None) \<rparr>"

text \<open>The same host, where the message to fetch is gone.\<close>

definition host_no_message :: host where
  "host_no_message = host0\<lparr> fetch_message := (\<lambda>ch i. Inl NotFound) \<rparr>"

text \<open>
  The same host, where alice has closed her DMs; and one where the bot may not write to
  the channel either.
\<close>

definition host_closed_dm :: host where
  "host_closed_dm = host0\<lparr> user_send := (\<lambda>u e. Inl Forbidden) \<rparr>"

definition host_no_send :: host where
  "host_no_send = host0\<lparr> user_send := (\<lambda>u e. Inl Forbidden),
                          channel_send := (\<lambda>ch t. Inl Forbidden) \<rparr>"

definition emb0 :: embed where
  "emb0 = snd (snd (create_bookmark_embed const0 msg0))"

text \<open>Reactions: alice bookmarks \<open>msg0\<close>; alice and the bot react to \<open>dm0\<close>.\<close>

definition add_payload :: payload where
  "add_payload = \<lparr> emoji = \<lparr> emoji_name = [0x1F516] \<rparr>,
                    user_id = 42, channel_id = 7, message_id = 9 \<rparr>"

definition remove_payload :: payload where
  "remove_payload = \<lparr> emoji = \<lparr> emoji_name = [0x1F5D1, 0xFE0F] \<rparr>,
                       user_id = 42, channel_id = 8, message_id = 10 \<rparr>"

definition bot_remove_payload :: payload where
  "bot_remove_payload = \<lparr> emoji = \<lparr> emoji_name = [0x1F5D1, 0xFE0F] \<rparr>,
                           user_id = 1, channel_id = 8, message_id = 10 \<rparr>"

text \<open>An emoji name that lies across the two configured emoji, and the empty name.\<close>

definition across_payload :: payload where
  "across_payload = \<lparr> emoji = \<lparr> emoji_name = [0x1F516, 0x1F5D1] \<rparr>,
                       user_id = 42, channel_id = 7, message_id = 9 \<rparr>"

definition empty_payload :: payload where
  "empty_payload = \<lparr> emoji = \<lparr> emoji_name = [] \<rparr>,
                      user_id = 42, channel_id = 8, message_id = 10 \<rparr>"

section \<open>Properties\<close>

subsection \<open>Calls and outcomes\<close>

lemma fst_emit [simp]: "fst (emit ev r) = ev # fst r"
  by (simp add: emit_def)

lemma snd_emit [simp]: "snd (emit ev r) = snd r"
  by (simp add: emit_def)

subsection \<open>Substrings\<close>

lemma startswith_iff: "startswith s sub \<longleftrightarrow> (\<exists>ss. s = sub @ ss)"
  by (induction s sub rule: startswith.induct) auto

lemma str_in_iff: "str_in sub s \<longleftrightarrow> (\<exists>ps ss. s = ps @ sub @ ss)"
proof (induction s)
  case Nil
  then show ?case by auto
next
  case (Cons y s)
  show ?case
  proof
    assume "str_in sub (y # s)"
    then consider "startswith (y # s) sub" | "str_in sub s" by auto
    then show "\<exists>ps ss. y # s = ps @ sub @ ss"
    proof cases
      case 1
      then obtain ss where "y # s = sub @ ss" by (auto simp: startswith_iff)
      then have "y # s = [] @ sub @ ss" by simp
      then show ?thesis by blast
    next
      case 2
      then obtain ps ss where "s = ps @ sub @ ss" using Cons.IH by auto
      then have "y # s = (y # ps) @ sub @ ss" by simp
      then show ?thesis by blast
    qed
  next
    assume "\<exists>ps ss. y # s = ps @ sub @ ss"
    then obtain ps ss where eq: "y # s = ps @ sub @ ss" by auto
    show "str_in sub (y # s)"
    proof (cases ps)
      case Nil
      with eq have "startswith (y # s) sub" by (auto simp: startswith_iff)
      then show ?thesis by simp
    next
      case (Cons a ps')
      with eq have "s = ps' @ sub @ ss" by simp
      then have "str_in sub s" using Cons.IH by auto
      then show ?thesis by simp
    qed
  qed
qed

lemma is_valid_emoji_iff: "is_valid_emoji em l \<longleftrightarrow> str_in (emoji_name em) l"
  by (simp add: is_valid_emoji_def)

lemma valid_add_imp_valid:
  "is_valid_emoji em (valid_add_emojis (init c h)) \<Longrightarrow> is_valid_emoji em (valid_emojis (init c h))"
  unfolding is_valid_emoji_iff str_in_iff init_def by simp (metis append.assoc)

lemma valid_remove_imp_valid:
  "is_valid_emoji em (valid_remove_emojis (init c h)) \<Longrightarrow> is_valid_emoji em (valid_emojis (init c h))"
  unfolding is_valid_emoji_iff str_in_iff init_def by simp (metis append.assoc)

subsection \<open>The paths through the handler\<close>

text \<open>
  One lemma for each way through \<open>on_raw_reaction_add\<close>: the emoji is refused; the user
  is not in the cache; the channel is not in the cache; the message cannot be fetched; the
  message is fetched.
\<close>

lemma handler_invalid:
  "\<not> is_valid_emoji (emoji p) (valid_emojis self) \<Longrightarrow> on_raw_reaction_add c self p = ([], Inr ())"
  by (simp add: on_raw_reaction_add_def)

lemma handler_no_user:
  "is_valid_emoji (emoji p) (valid_emojis self) \<Longrightarrow> get_user (bot self) (user_id p) = None \<Longrightarrow>
   on_raw_reaction_add c self p =
     (case fetch_user (bot self) (user_id p) of
        Inr usr \<Rightarrow> ([Get_user (user_id p), Fetch_user (user_id p)], Inr ())
      | Inl e \<Rightarrow>
          if e = NotFound
          then ([Get_user (user_id p), Fetch_user (user_id p), Log_error (User_not_found (user_id p))], Inr ())
          else if isinstance_HTTPException e
          then ([Get_user (user_id p), Fetch_user (user_id p), Log_error (Failed_to_fetch_user e)], Inr ())
          else ([Get_user (user_id p), Fetch_user (user_id p)], Inl e))"
  by (simp add: on_raw_reaction_add_def emit_def split: sum.splits)

lemma handler_no_channel:
  "is_valid_emoji (emoji p) (valid_emojis self) \<Longrightarrow> get_user (bot self) (user_id p) = Some u \<Longrightarrow>
   get_channel (bot self) (channel_id p) = None \<Longrightarrow>
   on_raw_reaction_add c self p =
     (case fetch_channel (bot self) (channel_id p) of
        Inr ch \<Rightarrow> ([Get_user (user_id p), Get_channel (channel_id p), Fetch_channel (channel_id p)], Inr ())
      | Inl e \<Rightarrow>
          if e = NotFound
          then ([Get_user (user_id p), Get_channel (channel_id p), Fetch_channel (channel_id p),
                 Log_error (Channel_not_found (channel_id p))], Inr ())
          else if isinstance_HTTPException e
          then ([Get_user (user_id p), Get_channel (channel_id p), Fetch_channel (channel_id p),
                 Log_error (Failed_to_fetch_channel e)], Inr ())
          else ([Get_user (user_id p), Get_channel (channel_id p), Fetch_channel (channel_id p)], Inl e))"
  by (simp add: on_raw_reaction_add_def emit_def split: sum.splits)

lemma handler_no_message:
  "is_valid_emoji (emoji p) (valid_emojis self) \<Longrightarrow> get_user (bot self) (user_id p) = Some u \<Longrightarrow>
   get_channel (bot self) (channel_id p) = Some ch \<Longrightarrow>
   fetch_message (bot self) ch (message_id p) = Inl e \<Longrightarrow>
   on_raw_reaction_add c self p =
     (if e = NotFound
      then ([Get_user (user_id p), Get_channel (channel_id p), Fetch_message ch (message_id p),
             Log_error (Message_not_found (message_id p))], Inr ())
      else if isinstance_HTTPException e
      then ([Get_user (user_id p), Get_channel (channel_id p), Fetch_message ch (message_id p),
             Log_error (Failed_to_fetch_message e)], Inr ())
      else ([Get_user (user_id p), Get_channel (channel_id p), Fetch_message ch (message_id p)], Inl e))"
  by (simp add: on_raw_reaction_add_def emit_def)

lemma handler_message:
  "is_valid_emoji (emoji p) (valid_emojis self) \<Longrightarrow> get_user (bot self) (user_id p) = Some u \<Longrightarrow>
   get_channel (bot self) (channel_id p) = Some ch \<Longrightarrow>
   fetch_message (bot self) ch (message_id p) = Inr m \<Longrightarrow>
   on_raw_reaction_add c self p =
     (let r = (if is_valid_emoji (emoji p) (valid_add_emojis self)
               then (fst (create_bookmark_embed c m) @
                       fst (send_bookmark c (bot self) u (fst (snd (create_bookmark_embed c m)))
                              (snd (snd (create_bookmark_embed c m))) (emoji p)),
                     snd (send_bookmark c (bot self) u (fst (snd (create_bookmark_embed c m)))
                              (snd (snd (create_bookmark_embed c m))) (emoji p)))
               else if is_valid_emoji (emoji p) (valid_remove_emojis self)
                       \<and> \<not> is_user u (bot_user (bot self))
               then delete_bookmark self m u
               else ([], Inr ()))
      in (Get_user (user_id p) # Get_channel (channel_id p) # Fetch_message ch (message_id p) # fst r,
          snd r))"
  by (simp add: on_raw_reaction_add_def emit_def Let_def split: prod.splits)

subsection \<open>The calls of the helpers\<close>

lemma create_bookmark_embed_events:
  "fst (create_bookmark_embed c m) =
     [Create_embed INFO (str_of ''Message Bookmarked'')
        (description (snd (snd (create_bookmark_embed c m))))]"
  by (simp add: create_bookmark_embed_def Let_def create_embed_def add_field_def)

lemma create_bookmark_embed_description:
  "description (snd (snd (create_bookmark_embed c m))) =
     str_of ''> '' @ content (fst (snd (create_bookmark_embed c m)))"
  by (simp add: create_bookmark_embed_def Let_def create_embed_def add_field_def)

lemma create_bookmark_embed_content:
  "content (fst (snd (create_bookmark_embed c m))) =
     (if int (length (content m)) > EMBED_MAX_DESC_LENGTH c
      then slice_to (content m) (EMBED_MAX_DESC_LENGTH c - 3) @ str_of ''...''
      else content m)"
  by (simp add: create_bookmark_embed_def Let_def)

lemma create_bookmark_embed_message:
  "fst (snd (create_bookmark_embed c m)) =
     m\<lparr> content := content (fst (snd (create_bookmark_embed c m))) \<rparr>"
  by (simp add: create_bookmark_embed_def Let_def)

lemma send_bookmark_except_events:
  "ev \<in> set (fst (send_bookmark_except h u m e)) \<Longrightarrow>
     is_Log_error ev \<or> is_Channel_send ev \<or> is_Message_delete ev"
  by (auto simp: send_bookmark_except_def split: if_splits sum.splits)

lemma send_bookmark_events:
  "\<exists>rest. fst (send_bookmark c h u m emb em) = User_send u emb # rest \<and>
     (\<forall>ev\<in>set rest. is_Add_reaction ev \<or> is_Log_error ev \<or> is_Channel_send ev \<or> is_Message_delete ev)"
  by (auto simp: send_bookmark_def split: sum.splits dest: send_bookmark_except_events)

lemma delete_bookmark_events:
  "ev \<in> set (fst (delete_bookmark self m u)) \<Longrightarrow> ev = Message_delete m None"
  by (auto simp: delete_bookmark_def split: if_splits)

lemma send_bookmark_once:
  "length (filter is_User_send (fst (send_bookmark c h u m emb em))) \<le> 1 \<and>
   length (filter is_Add_reaction (fst (send_bookmark c h u m emb em))) \<le> 1 \<and>
   length (filter is_Channel_send (fst (send_bookmark c h u m emb em))) \<le> 1 \<and>
   length (filter is_Message_delete (fst (send_bookmark c h u m emb em))) \<le> 1 \<and>
   filter is_Fetch_user (fst (send_bookmark c h u m emb em)) = [] \<and>
   filter is_Fetch_channel (fst (send_bookmark c h u m emb em)) = [] \<and>
   filter is_Fetch_message (fst (send_bookmark c h u m emb em)) = []"
  by (simp add: send_bookmark_def send_bookmark_except_def split: sum.splits)

subsection \<open>No call is made twice\<close>

text \<open>
  C8. For every reaction-added event, each network call (\<open>fetch_user\<close>,
  \<open>fetch_channel\<close>, \<open>fetch_message\<close>, the direct-message send, the message delete, and
  also the reaction and the notice in the channel) occurs at most once among the calls
  of the handler, whatever the host answers: no call is retried.
\<close>

theorem each_call_at_most_once:
  "length (filter is_Fetch_user (fst (on_raw_reaction_add c self p))) \<le> 1 \<and>
   length (filter is_Fetch_channel (fst (on_raw_reaction_add c self p))) \<le> 1 \<and>
   length (filter is_Fetch_message (fst (on_raw_reaction_add c self p))) \<le> 1 \<and>
   length (filter is_User_send (fst (on_raw_reaction_add c self p))) \<le> 1 \<and>
   length (filter is_Add_reaction (fst (on_raw_reaction_add c self p))) \<le> 1 \<and>
   length (filter is_Channel_send (fst (on_raw_reaction_add c self p))) \<le> 1 \<and>
   length (filter is_Message_delete (fst (on_raw_reaction_add c self p))) \<le> 1"
proof (cases "is_valid_emoji (emoji p) (valid_emojis self)")
  case False
  then show ?thesis by (simp add: handler_invalid)
next
  case valid: True
  show ?thesis
  proof (cases "get_user (bot self) (user_id p)")
    case None
    show ?thesis
      unfolding handler_no_user [OF valid None] by (simp split: sum.splits)
  next
    case (Some u)
    show ?thesis
    proof (cases "get_channel (bot self) (channel_id p)")
      case None
      show ?thesis
        unfolding handler_no_channel [OF valid Some None] by (simp split: sum.splits)
    next
      case ch: (Some ch)
      show ?thesis
      proof (cases "fetch_message (bot self) ch (message_id p)")
        case (Inl e)
        show ?thesis
          unfolding handler_no_message [OF valid Some ch Inl] by simp
      next
        case (Inr m)
        show ?thesis
          unfolding handler_message [OF valid Some ch Inr]
          using send_bookmark_once [of c "bot self" u "fst (snd (create_bookmark_embed c m))"
                  "snd (snd (create_bookmark_embed c m))" "emoji p"]
          by (simp add: Let_def create_bookmark_embed_events delete_bookmark_def)
      qed
    qed
  qed
qed

subsection \<open>Facts about the example values\<close>

lemma length_str_of: "length (str_of s) = length s"
  by (simp add: str_of_def)

lemma emb0_eq:
  "snd (snd (create_bookmark_embed const0 msg0)) = emb0"
  by (simp add: emb0_def)

lemma handler_host0_add:
  "on_raw_reaction_add const0 (init const0 host0) add_payload =
     ([Get_user 42, Get_channel 7, Fetch_message chan0 9,
       Create_embed INFO (str_of ''Message Bookmarked'') (description emb0),
       User_send alice emb0, Add_reaction dm0 [0x1F5D1, 0xFE0F]], Inr ())"
proof -
  have valid: "is_valid_emoji (emoji add_payload) (valid_emojis (init const0 host0))"
    by (simp add: init_def const0_def add_payload_def is_valid_emoji_def)
  have add: "is_valid_emoji (emoji add_payload) (valid_add_emojis (init const0 host0))"
    by (simp add: init_def const0_def add_payload_def is_valid_emoji_def)
  have u: "get_user (bot (init const0 host0)) (user_id add_payload) = Some alice"
    by (simp add: init_def host0_def add_payload_def)
  have ch: "get_channel (bot (init const0 host0)) (channel_id add_payload) = Some chan0"
    by (simp add: init_def host0_def add_payload_def)
  have m: "fetch_message (bot (init const0 host0)) chan0 (message_id add_payload) = Inr msg0"
    by (simp add: init_def host0_def add_payload_def)
  have s: "send_bookmark const0 host0 alice m' emb0 em =
      ([User_send alice emb0, Add_reaction dm0 [0x1F5D1, 0xFE0F]], Inr ())" for m' em
    by (simp add: send_bookmark_def host0_def const0_def emit_def)
  have b: "bot (init const0 host0) = host0" by (simp add: init_def)
  show ?thesis
    unfolding handler_message [OF valid u ch m]
    using add by (simp add: Let_def create_bookmark_embed_events emb0_eq s b add_payload_def)
qed


subsection \<open>What a call in the list tells about the path\<close>

lemma fetch_message_reached:
  assumes "Fetch_message ch mid \<in> set (fst (on_raw_reaction_add c self p))"
  shows "is_valid_emoji (emoji p) (valid_emojis self) \<and>
         (\<exists>u. get_user (bot self) (user_id p) = Some u) \<and>
         get_channel (bot self) (channel_id p) = Some ch \<and> mid = message_id p"
proof (cases "is_valid_emoji (emoji p) (valid_emojis self)")
  case False
  with assms show ?thesis by (simp add: handler_invalid)
next
  case valid: True
  show ?thesis
  proof (cases "get_user (bot self) (user_id p)")
    case None
    from assms show ?thesis
      unfolding handler_no_user [OF valid None] by (simp split: sum.splits if_splits)
  next
    case (Some u)
    show ?thesis
    proof (cases "get_channel (bot self) (channel_id p)")
      case None
      from assms show ?thesis
        unfolding handler_no_channel [OF valid Some None] by (simp split: sum.splits if_splits)
    next
      case ch: (Some ch')
      show ?thesis
      proof (cases "fetch_message (bot self) ch' (message_id p)")
        case (Inl e)
        from assms show ?thesis
          unfolding handler_no_message [OF valid Some ch Inl]
          using valid Some ch by (simp split: if_splits)
      next
        case (Inr m)
        obtain rest where rest: "fst (send_bookmark c (bot self) u (fst (snd (create_bookmark_embed c m)))
                 (snd (snd (create_bookmark_embed c m))) (emoji p)) =
                 User_send u (snd (snd (create_bookmark_embed c m))) # rest"
          "\<forall>ev\<in>set rest. is_Add_reaction ev \<or> is_Log_error ev \<or> is_Channel_send ev \<or> is_Message_delete ev"
          using send_bookmark_events by blast
        from assms show ?thesis
          unfolding handler_message [OF valid Some ch Inr]
          using valid Some ch rest
          by (auto simp: Let_def create_bookmark_embed_events split: if_splits
                dest: delete_bookmark_events)
      qed
    qed
  qed
qed

lemma user_send_reached:
  assumes "User_send u emb \<in> set (fst (on_raw_reaction_add c self p))"
  shows "is_valid_emoji (emoji p) (valid_emojis self) \<and>
         is_valid_emoji (emoji p) (valid_add_emojis self) \<and>
         get_user (bot self) (user_id p) = Some u \<and>
         (\<exists>ch m. get_channel (bot self) (channel_id p) = Some ch \<and>
            fetch_message (bot self) ch (message_id p) = Inr m \<and>
            emb = snd (snd (create_bookmark_embed c m)))"
proof (cases "is_valid_emoji (emoji p) (valid_emojis self)")
  case False
  with assms show ?thesis by (simp add: handler_invalid)
next
  case valid: True
  show ?thesis
  proof (cases "get_user (bot self) (user_id p)")
    case None
    from assms show ?thesis
      unfolding handler_no_user [OF valid None] by (simp split: sum.splits if_splits)
  next
    case (Some u')
    show ?thesis
    proof (cases "get_channel (bot self) (channel_id p)")
      case None
      from assms show ?thesis
        unfolding handler_no_channel [OF valid Some None] by (simp split: sum.splits if_splits)
    next
      case ch: (Some ch)
      show ?thesis
      proof (cases "fetch_message (bot self) ch (message_id p)")
        case (Inl e)
        from assms show ?thesis
          unfolding handler_no_message [OF valid Some ch Inl] by (simp split: if_splits)
      next
        case (Inr m)
        obtain rest where rest: "fst (send_bookmark c (bot self) u' (fst (snd (create_bookmark_embed c m)))
                 (snd (snd (create_bookmark_embed c m))) (emoji p)) =
                 User_send u' (snd (snd (create_bookmark_embed c m))) # rest"
          "\<forall>ev\<in>set rest. is_Add_reaction ev \<or> is_Log_error ev \<or> is_Channel_send ev \<or> is_Message_delete ev"
          using send_bookmark_events by blast
        from assms show ?thesis
          unfolding handler_message [OF valid Some ch Inr]
          using valid Some ch Inr rest
          by (auto simp: Let_def create_bookmark_embed_events split: if_splits
                dest: delete_bookmark_events)
      qed
    qed
  qed
qed


subsection \<open>A user that is not in the cache\<close>

text \<open>
  C1. The claim: when the reacting user is not in the cache, the handler fetches the user
  and, when the fetch succeeds, goes on as with a cached user. The handler does fetch the
  user, but the \<open>return\<close> that follows the \<open>try\<close> statement is reached on success as
  well: alice bookmarks \<open>msg0\<close> with the bookmark emoji, the user cache is empty,
  \<open>fetch_user\<close> answers alice, and the handler returns after these two calls. With alice
  in the cache the same event fetches the message and sends her the embed.
\<close>

theorem fetched_user_is_dropped:
  "is_valid_emoji (emoji add_payload) (valid_add_emojis (init const0 host_no_cache)) \<and>
   get_user host_no_cache (user_id add_payload) = None \<and>
   fetch_user host_no_cache (user_id add_payload) = Inr alice \<and>
   on_raw_reaction_add const0 (init const0 host_no_cache) add_payload =
     ([Get_user 42, Fetch_user 42], Inr ()) \<and>
   get_user host0 (user_id add_payload) = Some alice \<and>
   on_raw_reaction_add const0 (init const0 host0) add_payload =
     ([Get_user 42, Get_channel 7, Fetch_message chan0 9,
       Create_embed INFO (str_of ''Message Bookmarked'') (description emb0),
       User_send alice emb0, Add_reaction dm0 [0x1F5D1, 0xFE0F]], Inr ())"
proof (intro conjI)
  show "is_valid_emoji (emoji add_payload) (valid_add_emojis (init const0 host_no_cache))"
    by (simp add: init_def const0_def add_payload_def is_valid_emoji_def)
  show "get_user host_no_cache (user_id add_payload) = None"
    by (simp add: host_no_cache_def)
  show "fetch_user host_no_cache (user_id add_payload) = Inr alice"
    by (simp add: host_no_cache_def host0_def add_payload_def)
  show "on_raw_reaction_add const0 (init const0 host_no_cache) add_payload =
     ([Get_user 42, Fetch_user 42], Inr ())"
    by (simp add: on_raw_reaction_add_def init_def const0_def host_no_cache_def host0_def
          add_payload_def is_valid_emoji_def emit_def)
  show "get_user host0 (user_id add_payload) = Some alice"
    by (simp add: host0_def add_payload_def)
  show "on_raw_reaction_add const0 (init const0 host0) add_payload =
     ([Get_user 42, Get_channel 7, Fetch_message chan0 9,
       Create_embed INFO (str_of ''Message Bookmarked'') (description emb0),
       User_send alice emb0, Add_reaction dm0 [0x1F5D1, 0xFE0F]], Inr ())"
    by (rule handler_host0_add)
qed


subsection \<open>Adding a bookmark\<close>

text \<open>
  C2. For every reaction-added event whose emoji is accepted as an add-bookmark emoji,
  with the reacting user and the channel in the cache and the message fetched, the handler
  builds the embed of \<open>_create_bookmark_embed\<close> for the message, whose description is
  \<open>"> "\<close> followed by the message content (cut as C9 says when it is over-long), and its
  next call sends that embed to the reacting user.
\<close>

theorem add_emoji_sends_embed:
  assumes "is_valid_emoji (emoji p) (valid_add_emojis (init c h))"
    and "get_user h (user_id p) = Some u"
    and "get_channel h (channel_id p) = Some ch"
    and "fetch_message h ch (message_id p) = Inr m"
  shows "\<exists>emb rest.
           emb = snd (snd (create_bookmark_embed c m)) \<and>
           description emb =
             str_of ''> '' @
             (if int (length (content m)) > EMBED_MAX_DESC_LENGTH c
              then slice_to (content m) (EMBED_MAX_DESC_LENGTH c - 3) @ str_of ''...''
              else content m) \<and>
           fst (on_raw_reaction_add c (init c h) p) =
             [Get_user (user_id p), Get_channel (channel_id p), Fetch_message ch (message_id p),
              Create_embed INFO (str_of ''Message Bookmarked'') (description emb),
              User_send u emb] @ rest"
proof -
  have b: "bot (init c h) = h" by (simp add: init_def)
  have valid: "is_valid_emoji (emoji p) (valid_emojis (init c h))"
    using assms(1) by (rule valid_add_imp_valid)
  obtain rest where rest:
    "fst (send_bookmark c h u (fst (snd (create_bookmark_embed c m)))
           (snd (snd (create_bookmark_embed c m))) (emoji p)) =
       User_send u (snd (snd (create_bookmark_embed c m))) # rest"
    using send_bookmark_events by blast
  have "fst (on_raw_reaction_add c (init c h) p) =
          [Get_user (user_id p), Get_channel (channel_id p), Fetch_message ch (message_id p),
           Create_embed INFO (str_of ''Message Bookmarked'')
             (description (snd (snd (create_bookmark_embed c m)))),
           User_send u (snd (snd (create_bookmark_embed c m)))] @ rest"
    using handler_message [of p "init c h" u ch m c] valid assms rest
    by (simp add: b Let_def create_bookmark_embed_events)
  then show ?thesis
    by (simp add: create_bookmark_embed_description create_bookmark_embed_content)
qed

text \<open>Alice bookmarks \<open>msg0\<close>, whose content is \<open>hello\<close>.\<close>

theorem add_emoji_sends_embed_witness:
  "is_valid_emoji (emoji add_payload) (valid_add_emojis (init const0 host0)) \<and>
   get_user host0 (user_id add_payload) = Some alice \<and>
   get_channel host0 (channel_id add_payload) = Some chan0 \<and>
   fetch_message host0 chan0 (message_id add_payload) = Inr msg0 \<and>
   (\<exists>rest. fst (on_raw_reaction_add const0 (init const0 host0) add_payload) =
      [Get_user 42, Get_channel 7, Fetch_message chan0 9,
       Create_embed INFO (str_of ''Message Bookmarked'') (str_of ''> hello''),
       User_send alice emb0] @ rest) \<and>
   description emb0 = str_of ''> hello''"
proof -
  have add: "is_valid_emoji (emoji add_payload) (valid_add_emojis (init const0 host0))"
    by (simp add: init_def const0_def add_payload_def is_valid_emoji_def)
  have u: "get_user host0 (user_id add_payload) = Some alice"
    by (simp add: host0_def add_payload_def)
  have ch: "get_channel host0 (channel_id add_payload) = Some chan0"
    by (simp add: host0_def add_payload_def)
  have m: "fetch_message host0 chan0 (message_id add_payload) = Inr msg0"
    by (simp add: host0_def add_payload_def)
  have small: "\<not> int (length (content msg0)) > EMBED_MAX_DESC_LENGTH const0"
    by (simp add: msg0_def const0_def str_of_def)
  have hello: "str_of ''> '' @ content msg0 = str_of ''> hello''"
    by (simp add: msg0_def str_of_def)
  have ids: "user_id add_payload = 42" "channel_id add_payload = 7" "message_id add_payload = 9"
    by (simp_all add: add_payload_def)
  from add_emoji_sends_embed [OF add u ch m] obtain rest where
    d: "description emb0 = str_of ''> hello''" and
    tr: "fst (on_raw_reaction_add const0 (init const0 host0) add_payload) =
      [Get_user 42, Get_channel 7, Fetch_message chan0 9,
       Create_embed INFO (str_of ''Message Bookmarked'') (description emb0),
       User_send alice emb0] @ rest"
    unfolding emb0_eq ids using small hello by auto
  from tr d have "\<exists>rest. fst (on_raw_reaction_add const0 (init const0 host0) add_payload) =
      [Get_user 42, Get_channel 7, Fetch_message chan0 9,
       Create_embed INFO (str_of ''Message Bookmarked'') (str_of ''> hello''),
       User_send alice emb0] @ rest"
    by simp
  with add u ch m d show ?thesis by simp
qed


subsection \<open>Removing a bookmark\<close>

text \<open>
  C3, as stated, fails. The bot reacts to its own bookmark \<open>dm0\<close> with the wastebasket
  (as \<open>_send_bookmark\<close> makes it do): the message is the bot's, and it is not deleted,
  because the handler deletes only when the reacting user is not the bot. And a reaction
  of alice whose emoji name is empty is accepted as a remove-bookmark emoji, but as an
  add-bookmark emoji first: nothing is deleted either.
\<close>

theorem bot_reaction_deletes_nothing:
  "is_valid_emoji (emoji bot_remove_payload) (valid_remove_emojis (init const0 host0)) \<and>
   get_user host0 (user_id bot_remove_payload) = Some tux_user \<and>
   get_channel host0 (channel_id bot_remove_payload) = Some dm_chan \<and>
   fetch_message host0 dm_chan (message_id bot_remove_payload) = Inr dm0 \<and>
   is_user (author dm0) (bot_user host0) \<and>
   on_raw_reaction_add const0 (init const0 host0) bot_remove_payload =
     ([Get_user 1, Get_channel 8, Fetch_message dm_chan 10], Inr ()) \<and>
   is_valid_emoji (emoji empty_payload) (valid_remove_emojis (init const0 host0)) \<and>
   get_user host0 (user_id empty_payload) = Some alice \<and>
   \<not> is_user alice (bot_user host0) \<and>
   get_channel host0 (channel_id empty_payload) = Some dm_chan \<and>
   fetch_message host0 dm_chan (message_id empty_payload) = Inr dm0 \<and>
   list_all (\<lambda>ev. \<not> is_Message_delete ev)
     (fst (on_raw_reaction_add const0 (init const0 host0) empty_payload))"
proof (intro conjI)
  show "is_valid_emoji (emoji bot_remove_payload) (valid_remove_emojis (init const0 host0))"
    by (simp add: init_def const0_def bot_remove_payload_def is_valid_emoji_def)
  show "get_user host0 (user_id bot_remove_payload) = Some tux_user"
    by (simp add: host0_def bot_remove_payload_def)
  show "get_channel host0 (channel_id bot_remove_payload) = Some dm_chan"
    by (simp add: host0_def bot_remove_payload_def)
  show "fetch_message host0 dm_chan (message_id bot_remove_payload) = Inr dm0"
    by (simp add: host0_def bot_remove_payload_def)
  show "is_user (author dm0) (bot_user host0)"
    by (simp add: host0_def dm0_def is_user_def)
  show "on_raw_reaction_add const0 (init const0 host0) bot_remove_payload =
     ([Get_user 1, Get_channel 8, Fetch_message dm_chan 10], Inr ())"
    by (simp add: on_raw_reaction_add_def init_def const0_def host0_def bot_remove_payload_def
          is_valid_emoji_def emit_def is_user_def tux_user_def dm_chan_def)
  show "is_valid_emoji (emoji empty_payload) (valid_remove_emojis (init const0 host0))"
    by (simp add: init_def const0_def empty_payload_def is_valid_emoji_def)
  show "get_user host0 (user_id empty_payload) = Some alice"
    by (simp add: host0_def empty_payload_def)
  show "\<not> is_user alice (bot_user host0)"
    by (simp add: host0_def is_user_def alice_def tux_user_def)
  show "get_channel host0 (channel_id empty_payload) = Some dm_chan"
    by (simp add: host0_def empty_payload_def)
  show "fetch_message host0 dm_chan (message_id empty_payload) = Inr dm0"
    by (simp add: host0_def empty_payload_def)
  show "list_all (\<lambda>ev. \<not> is_Message_delete ev)
     (fst (on_raw_reaction_add const0 (init const0 host0) empty_payload))"
    by (simp add: on_raw_reaction_add_def init_def const0_def host0_def empty_payload_def
          is_valid_emoji_def emit_def create_bookmark_embed_def Let_def send_bookmark_def)
qed

text \<open>
  C3, amended. For every reaction-added event whose emoji is accepted as a remove-bookmark
  emoji and not as an add-bookmark emoji, with the reacting user and the channel in the
  cache and the message fetched: when the reacting user is not the bot's own user object
  and the author of the message is, the handler calls \<open>message.delete()\<close> and ends as that
  call does; in every other case (the author is someone else, or the bot itself reacted)
  it makes no further call and the message is left untouched.
\<close>

theorem remove_emoji_deletes_bot_message:
  assumes "is_valid_emoji (emoji p) (valid_remove_emojis (init c h))"
    and "\<not> is_valid_emoji (emoji p) (valid_add_emojis (init c h))"
    and "get_user h (user_id p) = Some u"
    and "get_channel h (channel_id p) = Some ch"
    and "fetch_message h ch (message_id p) = Inr m"
  shows "on_raw_reaction_add c (init c h) p =
           (if \<not> is_user u (bot_user h) \<and> is_user (author m) (bot_user h)
            then ([Get_user (user_id p), Get_channel (channel_id p), Fetch_message ch (message_id p),
                   Message_delete m None], message_delete h m None)
            else ([Get_user (user_id p), Get_channel (channel_id p), Fetch_message ch (message_id p)],
                  Inr ()))"
proof -
  have b: "bot (init c h) = h" by (simp add: init_def)
  have valid: "is_valid_emoji (emoji p) (valid_emojis (init c h))"
    using assms(1) by (rule valid_remove_imp_valid)
  show ?thesis
    using handler_message [of p "init c h" u ch m c] valid assms
    by (simp add: b Let_def delete_bookmark_def)
qed

text \<open>Alice removes the bookmark \<open>dm0\<close> the bot sent her.\<close>

theorem remove_emoji_deletes_bot_message_witness:
  "is_valid_emoji (emoji remove_payload) (valid_remove_emojis (init const0 host0)) \<and>
   \<not> is_valid_emoji (emoji remove_payload) (valid_add_emojis (init const0 host0)) \<and>
   get_user host0 (user_id remove_payload) = Some alice \<and>
   get_channel host0 (channel_id remove_payload) = Some dm_chan \<and>
   fetch_message host0 dm_chan (message_id remove_payload) = Inr dm0 \<and>
   \<not> is_user alice (bot_user host0) \<and> is_user (author dm0) (bot_user host0) \<and>
   on_raw_reaction_add const0 (init const0 host0) remove_payload =
     ([Get_user 42, Get_channel 8, Fetch_message dm_chan 10, Message_delete dm0 None], Inr ())"
proof -
  have r: "is_valid_emoji (emoji remove_payload) (valid_remove_emojis (init const0 host0))"
    by (simp add: init_def const0_def remove_payload_def is_valid_emoji_def)
  have a: "\<not> is_valid_emoji (emoji remove_payload) (valid_add_emojis (init const0 host0))"
    by (simp add: init_def const0_def remove_payload_def is_valid_emoji_def)
  have u: "get_user host0 (user_id remove_payload) = Some alice"
    by (simp add: host0_def remove_payload_def)
  have ch: "get_channel host0 (channel_id remove_payload) = Some dm_chan"
    by (simp add: host0_def remove_payload_def)
  have m: "fetch_message host0 dm_chan (message_id remove_payload) = Inr dm0"
    by (simp add: host0_def remove_payload_def)
  have i: "\<not> is_user alice (bot_user host0) \<and> is_user (author dm0) (bot_user host0)"
    by (simp add: host0_def dm0_def is_user_def alice_def tux_user_def)
  have d: "message_delete host0 dm0 None = Inr ()"
    by (simp add: host0_def)
  from remove_emoji_deletes_bot_message [OF r a u ch m] r a u ch m i show ?thesis
    by (simp add: d remove_payload_def)
qed


subsection \<open>Other emoji\<close>

text \<open>
  C4, as stated, fails. The handler first looks the emoji name up in the concatenation
  \<open>ADD_BOOKMARK + REMOVE_BOOKMARK\<close>. The name made of the bookmark emoji and the
  wastebasket without its variation selector lies across the two: it is neither an
  add-bookmark nor a remove-bookmark emoji, and the user, the channel and the message are
  looked up all the same.
\<close>

theorem across_emoji_is_looked_up:
  "\<not> is_valid_emoji (emoji across_payload) (valid_add_emojis (init const0 host0)) \<and>
   \<not> is_valid_emoji (emoji across_payload) (valid_remove_emojis (init const0 host0)) \<and>
   on_raw_reaction_add const0 (init const0 host0) across_payload =
     ([Get_user 42, Get_channel 7, Fetch_message chan0 9], Inr ())"
  by (simp add: on_raw_reaction_add_def init_def const0_def host0_def across_payload_def
        is_valid_emoji_def emit_def)

text \<open>
  C4, amended. For every reaction-added event whose emoji name does not occur in
  \<open>ADD_BOOKMARK + REMOVE_BOOKMARK\<close> the handler returns immediately, without any call: no
  lookup, no direct message, no delete. And for every event whose emoji is neither an
  add-bookmark nor a remove-bookmark emoji, whatever lookups are made, no direct message
  is sent and no message is deleted.
\<close>

theorem refused_emoji_no_call:
  "(\<not> is_valid_emoji (emoji p) (valid_emojis self)
      \<longrightarrow> on_raw_reaction_add c self p = ([], Inr ())) \<and>
   (\<not> is_valid_emoji (emoji p) (valid_add_emojis self) \<and>
    \<not> is_valid_emoji (emoji p) (valid_remove_emojis self)
      \<longrightarrow> (\<forall>ev \<in> set (fst (on_raw_reaction_add c self p)).
             \<not> is_User_send ev \<and> \<not> is_Message_delete ev))"
proof (intro conjI impI)
  assume "\<not> is_valid_emoji (emoji p) (valid_emojis self)"
  then show "on_raw_reaction_add c self p = ([], Inr ())" by (rule handler_invalid)
next
  assume neither: "\<not> is_valid_emoji (emoji p) (valid_add_emojis self) \<and>
    \<not> is_valid_emoji (emoji p) (valid_remove_emojis self)"
  show "\<forall>ev \<in> set (fst (on_raw_reaction_add c self p)). \<not> is_User_send ev \<and> \<not> is_Message_delete ev"
  proof (cases "is_valid_emoji (emoji p) (valid_emojis self)")
    case False
    then show ?thesis by (simp add: handler_invalid)
  next
    case valid: True
    show ?thesis
    proof (cases "get_user (bot self) (user_id p)")
      case None
      show ?thesis
        unfolding handler_no_user [OF valid None] by (simp split: sum.splits)
    next
      case (Some u)
      show ?thesis
      proof (cases "get_channel (bot self) (channel_id p)")
        case None
        show ?thesis
          unfolding handler_no_channel [OF valid Some None] by (simp split: sum.splits)
      next
        case ch: (Some ch)
        show ?thesis
        proof (cases "fetch_message (bot self) ch (message_id p)")
          case (Inl e)
          show ?thesis
            unfolding handler_no_message [OF valid Some ch Inl] by simp
        next
          case (Inr m)
          show ?thesis
            unfolding handler_message [OF valid Some ch Inr] using neither by simp
        qed
      qed
    qed
  qed
qed

text \<open>The emoji that lies across the two, and a thumbs-up (U+1F44D).\<close>

theorem refused_emoji_no_call_witness:
  "\<not> is_valid_emoji (emoji across_payload) (valid_add_emojis (init const0 host0)) \<and>
   \<not> is_valid_emoji (emoji across_payload) (valid_remove_emojis (init const0 host0)) \<and>
   list_all (\<lambda>ev. \<not> is_User_send ev \<and> \<not> is_Message_delete ev)
     (fst (on_raw_reaction_add const0 (init const0 host0) across_payload)) \<and>
   \<not> is_valid_emoji \<lparr> emoji_name = [0x1F44D] \<rparr> (valid_emojis (init const0 host0)) \<and>
   on_raw_reaction_add const0 (init const0 host0) (add_payload\<lparr> emoji := \<lparr> emoji_name = [0x1F44D] \<rparr> \<rparr>)
     = ([], Inr ())"
proof -
  have a: "\<not> is_valid_emoji (emoji across_payload) (valid_add_emojis (init const0 host0)) \<and>
      \<not> is_valid_emoji (emoji across_payload) (valid_remove_emojis (init const0 host0))"
    by (simp add: init_def const0_def across_payload_def is_valid_emoji_def)
  have b: "\<not> is_valid_emoji (emoji (add_payload\<lparr> emoji := \<lparr> emoji_name = [0x1F44D] \<rparr> \<rparr>))
      (valid_emojis (init const0 host0))"
    by (simp add: init_def const0_def is_valid_emoji_def)
  show ?thesis
    using a b refused_emoji_no_call [of across_payload "init const0 host0" const0]
      refused_emoji_no_call [of "add_payload\<lparr> emoji := \<lparr> emoji_name = [0x1F44D] \<rparr> \<rparr>" "init const0 host0" const0]
    by (simp add: list_all_iff)
qed


subsection \<open>Classification is a substring test\<close>

text \<open>
  C5. \<open>_is_valid_emoji\<close> accepts an emoji for a list exactly when the emoji's name occurs
  in the list as a substring: the list is some prefix, the name, and some suffix. So it
  accepts every emoji whose name is a strict substring of the configured string.
\<close>

theorem is_valid_emoji_substring:
  "(is_valid_emoji em valid_list \<longleftrightarrow> (\<exists>ps ss. valid_list = ps @ emoji_name em @ ss)) \<and>
   ((\<exists>ps ss. valid_list = ps @ emoji_name em @ ss) \<and> emoji_name em \<noteq> valid_list
      \<longrightarrow> is_valid_emoji em valid_list)"
  by (simp add: is_valid_emoji_iff str_in_iff)

text \<open>
  The wastebasket without the variation selector is a strict substring of
  \<open>REMOVE_BOOKMARK\<close>, and is accepted.
\<close>

theorem is_valid_emoji_substring_witness:
  "(\<exists>ps ss. REMOVE_BOOKMARK const0 = ps @ emoji_name \<lparr> emoji_name = [0x1F5D1] \<rparr> @ ss) \<and>
   emoji_name \<lparr> emoji_name = [0x1F5D1] \<rparr> \<noteq> REMOVE_BOOKMARK const0 \<and>
   is_valid_emoji \<lparr> emoji_name = [0x1F5D1] \<rparr> (REMOVE_BOOKMARK const0) \<and>
   is_valid_emoji \<lparr> emoji_name = [0x1F5D1] \<rparr> (valid_emojis (init const0 host0))"
proof -
  have sub: "\<exists>ps ss. REMOVE_BOOKMARK const0 = ps @ emoji_name \<lparr> emoji_name = [0x1F5D1] \<rparr> @ ss"
  proof (intro exI)
    show "REMOVE_BOOKMARK const0 = [] @ emoji_name \<lparr> emoji_name = [0x1F5D1] \<rparr> @ [0xFE0F]"
      by (simp add: const0_def)
  qed
  have sub2: "\<exists>ps ss. valid_emojis (init const0 host0) = ps @ emoji_name \<lparr> emoji_name = [0x1F5D1] \<rparr> @ ss"
  proof (intro exI)
    show "valid_emojis (init const0 host0) = [0x1F516] @ emoji_name \<lparr> emoji_name = [0x1F5D1] \<rparr> @ [0xFE0F]"
      by (simp add: const0_def init_def)
  qed
  have ne: "emoji_name \<lparr> emoji_name = [0x1F5D1] \<rparr> \<noteq> REMOVE_BOOKMARK const0"
    by (simp add: const0_def)
  from sub ne sub2 show ?thesis
    using is_valid_emoji_substring [of "\<lparr> emoji_name = [0x1F5D1] \<rparr>" "REMOVE_BOOKMARK const0"]
      is_valid_emoji_substring [of "\<lparr> emoji_name = [0x1F5D1] \<rparr>" "valid_emojis (init const0 host0)"]
    by blast
qed


subsection \<open>The message cannot be fetched\<close>

text \<open>
  C6. If the handler calls \<open>fetch_message\<close> and the call raises \<open>NotFound\<close>, \<open>Forbidden\<close>
  or another \<open>HTTPException\<close>, the handler logs the error and returns normally: the log
  is its last call, no direct message is sent and no message is deleted.
\<close>

theorem fetch_message_error_logged:
  assumes "Fetch_message ch mid \<in> set (fst (on_raw_reaction_add c self p))"
    and "fetch_message (bot self) ch mid = Inl e"
    and "isinstance_HTTPException e"
  shows "on_raw_reaction_add c self p =
           ([Get_user (user_id p), Get_channel (channel_id p), Fetch_message ch mid,
             Log_error (if e = NotFound then Message_not_found mid else Failed_to_fetch_message e)],
            Inr ()) \<and>
         list_all (\<lambda>ev. \<not> is_User_send ev \<and> \<not> is_Message_delete ev)
           (fst (on_raw_reaction_add c self p))"
proof -
  from fetch_message_reached [OF assms(1)] obtain u where
    valid: "is_valid_emoji (emoji p) (valid_emojis self)" and
    u: "get_user (bot self) (user_id p) = Some u" and
    ch: "get_channel (bot self) (channel_id p) = Some ch" and
    mid: "mid = message_id p"
    by blast
  from assms(2) mid have "fetch_message (bot self) ch (message_id p) = Inl e" by simp
  from handler_no_message [OF valid u ch this, of c] assms(3) mid show ?thesis by simp
qed

text \<open>Alice bookmarks a message that is gone.\<close>

theorem fetch_message_error_logged_witness:
  "Fetch_message chan0 9 \<in> set (fst (on_raw_reaction_add const0 (init const0 host_no_message) add_payload)) \<and>
   fetch_message (bot (init const0 host_no_message)) chan0 9 = Inl NotFound \<and>
   isinstance_HTTPException NotFound \<and>
   on_raw_reaction_add const0 (init const0 host_no_message) add_payload =
     ([Get_user 42, Get_channel 7, Fetch_message chan0 9, Log_error (Message_not_found 9)], Inr ())"
proof -
  have a: "Fetch_message chan0 9 \<in> set (fst (on_raw_reaction_add const0 (init const0 host_no_message) add_payload))"
    by (simp add: on_raw_reaction_add_def init_def const0_def host_no_message_def host0_def
          add_payload_def is_valid_emoji_def emit_def)
  have b: "fetch_message (bot (init const0 host_no_message)) chan0 9 = Inl NotFound"
    by (simp add: init_def host_no_message_def)
  have c: "isinstance_HTTPException NotFound" by simp
  from fetch_message_error_logged [OF a b c] a b c show ?thesis
    by (simp add: add_payload_def)
qed


subsection \<open>The order of the steps\<close>

lemma fst_then_step [simp]: "fst (then_step s r) = s # fst r"
  by (simp add: then_step_def)

lemma snd_then_step [simp]: "snd (then_step s r) = snd r"
  by (simp add: then_step_def)

lemma calls_of_map_Call [simp]: "calls_of (map Call evs) = evs"
  by (induction evs) simp_all

lemma Call_in_steps: "Call ev \<in> set ss \<Longrightarrow> ev \<in> set (calls_of ss)"
  by (induction ss rule: calls_of.induct) auto

text \<open>Without the calls of \<open>_is_valid_emoji\<close>, the steps are the calls into the host.\<close>

lemma calls_of_steps:
  "on_raw_reaction_add c self p =
     (calls_of (fst (on_raw_reaction_add_steps c self p)),
      snd (on_raw_reaction_add_steps c self p))"
  by (simp add: on_raw_reaction_add_def on_raw_reaction_add_steps_def emit_def then_step_def
        flip: map_append split: option.splits sum.splits prod.splits)

lemma steps_message_add:
  assumes "is_valid_emoji (emoji p) (valid_emojis self)"
    and "is_valid_emoji (emoji p) (valid_add_emojis self)"
    and "get_user (bot self) (user_id p) = Some u"
    and "get_channel (bot self) (channel_id p) = Some ch"
    and "fetch_message (bot self) ch (message_id p) = Inr m"
  shows "fst (on_raw_reaction_add_steps c self p) =
           [Classify (emoji p) (valid_emojis self) True,
            Call (Get_user (user_id p)), Call (Get_channel (channel_id p)),
            Call (Fetch_message ch (message_id p)),
            Classify (emoji p) (valid_add_emojis self) True] @
           map Call (fst (create_bookmark_embed c m) @
                     fst (send_bookmark c (bot self) u (fst (snd (create_bookmark_embed c m)))
                            (snd (snd (create_bookmark_embed c m))) (emoji p)))"
  using assms by (simp add: on_raw_reaction_add_steps_def split: prod.splits)

text \<open>
  C7, as stated, fails. Alice bookmarks \<open>msg0\<close> and the direct message is sent. The
  handler classifies the emoji in two places: it looks the name up in
  \<open>ADD_BOOKMARK + REMOVE_BOOKMARK\<close> before any lookup, and it decides that the emoji is an
  add-bookmark emoji only after the message is fetched. So a later step of the claim's
  order, the fetch of the message, happens before a classification of the emoji.
\<close>

theorem add_test_follows_fetch:
  "fst (on_raw_reaction_add_steps const0 (init const0 host0) add_payload) =
     [Classify (emoji add_payload) [0x1F516, 0x1F5D1, 0xFE0F] True,
      Call (Get_user 42), Call (Get_channel 7), Call (Fetch_message chan0 9),
      Classify (emoji add_payload) [0x1F516] True,
      Call (Create_embed INFO (str_of ''Message Bookmarked'') (description emb0)),
      Call (User_send alice emb0), Call (Add_reaction dm0 [0x1F5D1, 0xFE0F])]"
proof -
  have valid: "is_valid_emoji (emoji add_payload) (valid_emojis (init const0 host0))"
    by (simp add: init_def const0_def add_payload_def is_valid_emoji_def)
  have add: "is_valid_emoji (emoji add_payload) (valid_add_emojis (init const0 host0))"
    by (simp add: init_def const0_def add_payload_def is_valid_emoji_def)
  have u: "get_user (bot (init const0 host0)) (user_id add_payload) = Some alice"
    by (simp add: init_def host0_def add_payload_def)
  have ch: "get_channel (bot (init const0 host0)) (channel_id add_payload) = Some chan0"
    by (simp add: init_def host0_def add_payload_def)
  have m: "fetch_message (bot (init const0 host0)) chan0 (message_id add_payload) = Inr msg0"
    by (simp add: init_def host0_def add_payload_def)
  have s: "send_bookmark const0 host0 alice m' emb0 em =
      ([User_send alice emb0, Add_reaction dm0 [0x1F5D1, 0xFE0F]], Inr ())" for m' em
    by (simp add: send_bookmark_def host0_def const0_def emit_def)
  have b: "bot (init const0 host0) = host0" by (simp add: init_def)
  have l: "valid_emojis (init const0 host0) = [0x1F516, 0x1F5D1, 0xFE0F]"
    "valid_add_emojis (init const0 host0) = [0x1F516]"
    by (simp_all add: init_def const0_def)
  have ids: "user_id add_payload = 42" "channel_id add_payload = 7" "message_id add_payload = 9"
    by (simp_all add: add_payload_def)
  show ?thesis
    unfolding steps_message_add [OF valid add u ch m]
    by (simp add: create_bookmark_embed_events emb0_eq s b l ids)
qed

text \<open>
  C7, amended. For every event for which the handler sends a direct message, the steps
  of the handler are, in this order: the lookup of the emoji name in
  \<open>ADD_BOOKMARK + REMOVE_BOOKMARK\<close>, which finds it; the user lookup; the channel lookup;
  the fetch of the message in that channel; the lookup of the emoji name in
  \<open>ADD_BOOKMARK\<close>, which finds it; the creation of the embed from that message; the send of
  that embed to that user. Each of them occurs once: only the reaction, a log, the notice
  to the channel and its delete can follow.
\<close>

theorem steps_in_order:
  assumes "Call (User_send u emb) \<in> set (fst (on_raw_reaction_add_steps c self p))"
  shows "str_in (emoji_name (emoji p)) (valid_emojis self) \<and>
         str_in (emoji_name (emoji p)) (valid_add_emojis self) \<and>
         (\<exists>ch m rest.
            get_user (bot self) (user_id p) = Some u \<and>
            get_channel (bot self) (channel_id p) = Some ch \<and>
            fetch_message (bot self) ch (message_id p) = Inr m \<and>
            emb = snd (snd (create_bookmark_embed c m)) \<and>
            fst (on_raw_reaction_add_steps c self p) =
              [Classify (emoji p) (valid_emojis self) True,
               Call (Get_user (user_id p)), Call (Get_channel (channel_id p)),
               Call (Fetch_message ch (message_id p)),
               Classify (emoji p) (valid_add_emojis self) True,
               Call (Create_embed INFO (str_of ''Message Bookmarked'') (description emb)),
               Call (User_send u emb)] @ map Call rest \<and>
            list_all (\<lambda>ev. is_Add_reaction ev \<or> is_Log_error ev \<or> is_Channel_send ev \<or>
                            is_Message_delete ev) rest)"
proof -
  from assms have "User_send u emb \<in> set (calls_of (fst (on_raw_reaction_add_steps c self p)))"
    by (rule Call_in_steps)
  then have "User_send u emb \<in> set (fst (on_raw_reaction_add c self p))"
    by (simp add: calls_of_steps)
  from user_send_reached [OF this] obtain ch m where
    valid: "is_valid_emoji (emoji p) (valid_emojis self)" and
    add: "is_valid_emoji (emoji p) (valid_add_emojis self)" and
    u: "get_user (bot self) (user_id p) = Some u" and
    ch: "get_channel (bot self) (channel_id p) = Some ch" and
    m: "fetch_message (bot self) ch (message_id p) = Inr m" and
    emb: "emb = snd (snd (create_bookmark_embed c m))"
    by blast
  obtain rest where rest: "fst (send_bookmark c (bot self) u (fst (snd (create_bookmark_embed c m)))
           emb (emoji p)) = User_send u emb # rest"
    "\<forall>ev\<in>set rest. is_Add_reaction ev \<or> is_Log_error ev \<or> is_Channel_send ev \<or> is_Message_delete ev"
    using send_bookmark_events by blast
  have "fst (on_raw_reaction_add_steps c self p) =
          [Classify (emoji p) (valid_emojis self) True,
           Call (Get_user (user_id p)), Call (Get_channel (channel_id p)),
           Call (Fetch_message ch (message_id p)),
           Classify (emoji p) (valid_add_emojis self) True,
           Call (Create_embed INFO (str_of ''Message Bookmarked'') (description emb)),
           Call (User_send u emb)] @ map Call rest"
    unfolding steps_message_add [OF valid add u ch m]
    using rest(1) emb by (simp add: create_bookmark_embed_events)
  moreover have "str_in (emoji_name (emoji p)) (valid_emojis self)"
    "str_in (emoji_name (emoji p)) (valid_add_emojis self)"
    using valid add by (simp_all add: is_valid_emoji_iff)
  ultimately show ?thesis
    using u ch m emb rest(2) by (auto simp: list_all_iff)
qed

text \<open>Alice bookmarks \<open>msg0\<close>; the reaction follows the send.\<close>

theorem steps_in_order_witness:
  "Call (User_send alice emb0)
     \<in> set (fst (on_raw_reaction_add_steps const0 (init const0 host0) add_payload)) \<and>
   str_in (emoji_name (emoji add_payload)) (valid_emojis (init const0 host0)) \<and>
   str_in (emoji_name (emoji add_payload)) (valid_add_emojis (init const0 host0)) \<and>
   get_user (bot (init const0 host0)) (user_id add_payload) = Some alice \<and>
   take 7 (fst (on_raw_reaction_add_steps const0 (init const0 host0) add_payload)) =
     [Classify (emoji add_payload) (valid_emojis (init const0 host0)) True,
      Call (Get_user (user_id add_payload)), Call (Get_channel (channel_id add_payload)),
      Call (Fetch_message chan0 (message_id add_payload)),
      Classify (emoji add_payload) (valid_add_emojis (init const0 host0)) True,
      Call (Create_embed INFO (str_of ''Message Bookmarked'') (description emb0)),
      Call (User_send alice emb0)]"
proof -
  have valid: "is_valid_emoji (emoji add_payload) (valid_emojis (init const0 host0))"
    by (simp add: init_def const0_def add_payload_def is_valid_emoji_def)
  have add: "is_valid_emoji (emoji add_payload) (valid_add_emojis (init const0 host0))"
    by (simp add: init_def const0_def add_payload_def is_valid_emoji_def)
  have u: "get_user (bot (init const0 host0)) (user_id add_payload) = Some alice"
    by (simp add: init_def host0_def add_payload_def)
  have ch: "get_channel (bot (init const0 host0)) (channel_id add_payload) = Some chan0"
    by (simp add: init_def host0_def add_payload_def)
  have m: "fetch_message (bot (init const0 host0)) chan0 (message_id add_payload) = Inr msg0"
    by (simp add: init_def host0_def add_payload_def)
  have a: "Call (User_send alice emb0)
     \<in> set (fst (on_raw_reaction_add_steps const0 (init const0 host0) add_payload))"
    unfolding steps_message_add [OF valid add u ch m]
    by (simp add: create_bookmark_embed_events emb0_eq send_bookmark_def)
  from steps_in_order [OF a] obtain ch' and m' :: message and rest where
    s: "str_in (emoji_name (emoji add_payload)) (valid_emojis (init const0 host0))"
       "str_in (emoji_name (emoji add_payload)) (valid_add_emojis (init const0 host0))" and
    c: "get_channel (bot (init const0 host0)) (channel_id add_payload) = Some ch'" and
    t: "fst (on_raw_reaction_add_steps const0 (init const0 host0) add_payload) =
          [Classify (emoji add_payload) (valid_emojis (init const0 host0)) True,
           Call (Get_user (user_id add_payload)), Call (Get_channel (channel_id add_payload)),
           Call (Fetch_message ch' (message_id add_payload)),
           Classify (emoji add_payload) (valid_add_emojis (init const0 host0)) True,
           Call (Create_embed INFO (str_of ''Message Bookmarked'') (description emb0)),
           Call (User_send alice emb0)] @ map Call rest"
    by blast
  from c ch have "ch' = chan0" by simp
  with t have "take 7 (fst (on_raw_reaction_add_steps const0 (init const0 host0) add_payload)) =
     [Classify (emoji add_payload) (valid_emojis (init const0 host0)) True,
      Call (Get_user (user_id add_payload)), Call (Get_channel (channel_id add_payload)),
      Call (Fetch_message chan0 (message_id add_payload)),
      Classify (emoji add_payload) (valid_add_emojis (init const0 host0)) True,
      Call (Create_embed INFO (str_of ''Message Bookmarked'') (description emb0)),
      Call (User_send alice emb0)]"
    by simp
  with a s u show ?thesis by simp
qed

subsection \<open>The content of the embed\<close>

text \<open>
  C9. In \<open>_create_bookmark_embed\<close>, with \<open>EMBED_MAX_DESC_LENGTH\<close> at least 3 (the length
  of the dots): content strictly longer than \<open>EMBED_MAX_DESC_LENGTH\<close> is replaced in the
  message by its first \<open>EMBED_MAX_DESC_LENGTH - 3\<close> characters followed by three dots, a
  string of exactly \<open>EMBED_MAX_DESC_LENGTH\<close> characters. Content of at most
  \<open>EMBED_MAX_DESC_LENGTH\<close> characters leaves the message unchanged. Nothing but the
  content of the message changes, and the description handed to
  \<open>EmbedCreator.create_embed\<close>, which is the description of the embed, is \<open>"> "\<close>
  followed by the resulting content.
\<close>

theorem content_cut_to_max:
  "(int (length (content m)) > EMBED_MAX_DESC_LENGTH c \<and> 3 \<le> EMBED_MAX_DESC_LENGTH c \<longrightarrow>
      content (fst (snd (create_bookmark_embed c m))) =
        take (nat (EMBED_MAX_DESC_LENGTH c - 3)) (content m) @ str_of ''...'' \<and>
      int (length (content (fst (snd (create_bookmark_embed c m))))) = EMBED_MAX_DESC_LENGTH c) \<and>
   (int (length (content m)) \<le> EMBED_MAX_DESC_LENGTH c \<longrightarrow>
      fst (snd (create_bookmark_embed c m)) = m) \<and>
   fst (snd (create_bookmark_embed c m)) =
     m\<lparr> content := content (fst (snd (create_bookmark_embed c m))) \<rparr> \<and>
   fst (create_bookmark_embed c m) =
     [Create_embed INFO (str_of ''Message Bookmarked'')
        (str_of ''> '' @ content (fst (snd (create_bookmark_embed c m))))] \<and>
   description (snd (snd (create_bookmark_embed c m))) =
     str_of ''> '' @ content (fst (snd (create_bookmark_embed c m)))"
proof (intro conjI impI)
  assume a: "int (length (content m)) > EMBED_MAX_DESC_LENGTH c \<and> 3 \<le> EMBED_MAX_DESC_LENGTH c"
  then show "content (fst (snd (create_bookmark_embed c m))) =
        take (nat (EMBED_MAX_DESC_LENGTH c - 3)) (content m) @ str_of ''...''"
    by (simp add: create_bookmark_embed_content slice_to_def)
  from a have "nat (EMBED_MAX_DESC_LENGTH c - 3) \<le> length (content m)" by linarith
  with a show "int (length (content (fst (snd (create_bookmark_embed c m))))) = EMBED_MAX_DESC_LENGTH c"
    by (simp add: create_bookmark_embed_content slice_to_def str_of_def min_absorb2)
next
  assume "int (length (content m)) \<le> EMBED_MAX_DESC_LENGTH c"
  then show "fst (snd (create_bookmark_embed c m)) = m"
    by (simp add: create_bookmark_embed_def Let_def)
next
  show "fst (snd (create_bookmark_embed c m)) =
     m\<lparr> content := content (fst (snd (create_bookmark_embed c m))) \<rparr>"
    by (rule create_bookmark_embed_message)
next
  show "fst (create_bookmark_embed c m) =
     [Create_embed INFO (str_of ''Message Bookmarked'')
        (str_of ''> '' @ content (fst (snd (create_bookmark_embed c m))))]"
    by (simp add: create_bookmark_embed_events create_bookmark_embed_description)
next
  show "description (snd (snd (create_bookmark_embed c m))) =
     str_of ''> '' @ content (fst (snd (create_bookmark_embed c m)))"
    by (rule create_bookmark_embed_description)
qed

text \<open>A message of 5000 characters, and \<open>msg0\<close>.\<close>

theorem content_cut_to_max_witness:
  "int (length (content (msg0\<lparr> content := replicate 5000 120 \<rparr>))) > EMBED_MAX_DESC_LENGTH const0 \<and>
   3 \<le> EMBED_MAX_DESC_LENGTH const0 \<and>
   content (fst (snd (create_bookmark_embed const0 (msg0\<lparr> content := replicate 5000 120 \<rparr>)))) =
     replicate 4093 120 @ str_of ''...'' \<and>
   length (content (fst (snd (create_bookmark_embed const0 (msg0\<lparr> content := replicate 5000 120 \<rparr>))))) = 4096 \<and>
   int (length (content msg0)) \<le> EMBED_MAX_DESC_LENGTH const0 \<and>
   fst (snd (create_bookmark_embed const0 msg0)) = msg0 \<and>
   description (snd (snd (create_bookmark_embed const0 msg0))) = str_of ''> hello''"
proof -
  have a: "int (length (content (msg0\<lparr> content := replicate 5000 120 \<rparr>))) > EMBED_MAX_DESC_LENGTH const0"
    by (simp add: const0_def)
  have b: "3 \<le> EMBED_MAX_DESC_LENGTH const0" by (simp add: const0_def)
  have c: "int (length (content msg0)) \<le> EMBED_MAX_DESC_LENGTH const0"
    by (simp add: const0_def msg0_def str_of_def)
  have t: "take (nat (EMBED_MAX_DESC_LENGTH const0 - 3)) (content (msg0\<lparr> content := replicate 5000 120 \<rparr>))
      = replicate 4093 120"
    by (simp add: const0_def)
  have m: "EMBED_MAX_DESC_LENGTH const0 = 4096" by (simp add: const0_def)
  have h: "str_of ''> '' @ content msg0 = str_of ''> hello''" by (simp add: msg0_def str_of_def)
  from content_cut_to_max [of const0 "msg0\<lparr> content := replicate 5000 120 \<rparr>"] a b
  have 1: "content (fst (snd (create_bookmark_embed const0 (msg0\<lparr> content := replicate 5000 120 \<rparr>)))) =
     replicate 4093 120 @ str_of ''...''"
    and 2: "length (content (fst (snd (create_bookmark_embed const0 (msg0\<lparr> content := replicate 5000 120 \<rparr>))))) = 4096"
    unfolding t m by (simp_all add: length_str_of)
  from content_cut_to_max [of const0 msg0] c
  have 3: "fst (snd (create_bookmark_embed const0 msg0)) = msg0"
    and 4: "description (snd (snd (create_bookmark_embed const0 msg0))) = str_of ''> '' @ content msg0"
    by simp_all
  from a b c 1 2 3 4 h show ?thesis by simp
qed


subsection \<open>The direct message cannot be sent\<close>

text \<open>
  C10, as stated, fails. Alice has closed her DMs and the bot may not write to the channel
  of \<open>msg0\<close>: the send of the notice raises \<open>Forbidden\<close> inside the \<open>except\<close> clause, no
  notice is posted, nothing is scheduled for deletion, and the exception leaves
  \<open>_send_bookmark\<close>.
\<close>

theorem notice_fails_too:
  "user_send host_no_send alice emb0 = Inl Forbidden \<and>
   send_bookmark const0 host_no_send alice msg0 emb0 (emoji add_payload) =
     ([User_send alice emb0, Log_error (Cannot_send_a_DM (user_name alice) Forbidden),
       Channel_send chan0 (notify_text alice)], Inl Forbidden)"
  by (simp add: send_bookmark_def send_bookmark_except_def host_no_send_def emit_def msg0_def)

text \<open>
  C10, amended. If sending the direct message, or adding the remove-bookmark reaction to
  the delivered direct message, raises \<open>Forbidden\<close> or another \<open>HTTPException\<close>, and the
  send of the notice to the channel of the original message succeeds, then
  \<open>_send_bookmark\<close> logs the error, posts a notice that starts with the mention of the
  user to that channel, calls \<open>delete(delay=30)\<close> on the notice as its last call, and ends
  as that call does.
\<close>

theorem dm_error_notifies_in_channel:
  assumes "user_send h u emb = Inl e \<or>
           (\<exists>dm_message. user_send h u emb = Inr dm_message \<and>
              add_reaction h dm_message (REMOVE_BOOKMARK c) = Inl e)"
    and "isinstance_HTTPException e"
    and "channel_send h (channel m) (notify_text u) = Inr notify_message"
  shows "snd (send_bookmark c h u m emb em) = message_delete h notify_message (Some 30) \<and>
         (\<exists>calls. fst (send_bookmark c h u m emb em) =
            calls @ [Log_error (Cannot_send_a_DM (user_name u) e),
                     Channel_send (channel m) (notify_text u),
                     Message_delete notify_message (Some 30)] \<and>
            list_all (\<lambda>ev. is_User_send ev \<or> is_Add_reaction ev) calls) \<and>
         (\<exists>rest. notify_text u = user_mention u @ rest)"
proof -
  have n: "\<exists>rest. notify_text u = user_mention u @ rest"
    by (simp add: notify_text_def)
  have ex: "send_bookmark_except h u m e =
      ([Log_error (Cannot_send_a_DM (user_name u) e), Channel_send (channel m) (notify_text u),
        Message_delete notify_message (Some 30)], message_delete h notify_message (Some 30))"
    using assms(2,3) by (simp add: send_bookmark_except_def emit_def)
  from assms(1) show ?thesis
  proof
    assume "user_send h u emb = Inl e"
    then have "send_bookmark c h u m emb em =
        ([User_send u emb] @ [Log_error (Cannot_send_a_DM (user_name u) e),
           Channel_send (channel m) (notify_text u), Message_delete notify_message (Some 30)],
         message_delete h notify_message (Some 30))"
      by (simp add: send_bookmark_def ex emit_def)
    then have "snd (send_bookmark c h u m emb em) = message_delete h notify_message (Some 30) \<and>
       fst (send_bookmark c h u m emb em) = [User_send u emb] @ [Log_error (Cannot_send_a_DM (user_name u) e),
           Channel_send (channel m) (notify_text u), Message_delete notify_message (Some 30)] \<and>
       list_all (\<lambda>ev. is_User_send ev \<or> is_Add_reaction ev) [User_send u emb]"
      by simp
    with n show ?thesis by blast
  next
    assume "\<exists>dm_message. user_send h u emb = Inr dm_message \<and>
              add_reaction h dm_message (REMOVE_BOOKMARK c) = Inl e"
    then obtain dm where "user_send h u emb = Inr dm" "add_reaction h dm (REMOVE_BOOKMARK c) = Inl e"
      by blast
    then have "send_bookmark c h u m emb em =
        ([User_send u emb, Add_reaction dm (REMOVE_BOOKMARK c)] @
           [Log_error (Cannot_send_a_DM (user_name u) e),
           Channel_send (channel m) (notify_text u), Message_delete notify_message (Some 30)],
         message_delete h notify_message (Some 30))"
      by (simp add: send_bookmark_def ex emit_def)
    then have "snd (send_bookmark c h u m emb em) = message_delete h notify_message (Some 30) \<and>
       fst (send_bookmark c h u m emb em) = [User_send u emb, Add_reaction dm (REMOVE_BOOKMARK c)] @
          [Log_error (Cannot_send_a_DM (user_name u) e),
           Channel_send (channel m) (notify_text u), Message_delete notify_message (Some 30)] \<and>
       list_all (\<lambda>ev. is_User_send ev \<or> is_Add_reaction ev) [User_send u emb, Add_reaction dm (REMOVE_BOOKMARK c)]"
      by simp
    with n show ?thesis by blast
  qed
qed

text \<open>Alice has closed her DMs; the notice is posted to \<open>chan0\<close>.\<close>

theorem dm_error_notifies_in_channel_witness:
  "user_send host_closed_dm alice emb0 = Inl Forbidden \<and>
   isinstance_HTTPException Forbidden \<and>
   channel_send host_closed_dm (channel msg0) (notify_text alice) = Inr note0 \<and>
   send_bookmark const0 host_closed_dm alice msg0 emb0 (emoji add_payload) =
     ([User_send alice emb0, Log_error (Cannot_send_a_DM (user_name alice) Forbidden),
       Channel_send chan0 (notify_text alice), Message_delete note0 (Some 30)], Inr ())"
proof -
  have a: "user_send host_closed_dm alice emb0 = Inl Forbidden"
    by (simp add: host_closed_dm_def)
  have a': "user_send host_closed_dm alice emb0 = Inl Forbidden \<or>
           (\<exists>dm_message. user_send host_closed_dm alice emb0 = Inr dm_message \<and>
              add_reaction host_closed_dm dm_message (REMOVE_BOOKMARK const0) = Inl Forbidden)"
    using a by simp
  have b: "isinstance_HTTPException Forbidden" by simp
  have c: "channel_send host_closed_dm (channel msg0) (notify_text alice) = Inr note0"
    by (simp add: host_closed_dm_def host0_def)
  have d: "message_delete host_closed_dm note0 (Some 30) = Inr ()"
    by (simp add: host_closed_dm_def host0_def)
  have ch: "channel msg0 = chan0" by (simp add: msg0_def)
  have f: "fst (send_bookmark const0 host_closed_dm alice msg0 emb0 (emoji add_payload)) =
     [User_send alice emb0, Log_error (Cannot_send_a_DM (user_name alice) Forbidden),
       Channel_send chan0 (notify_text alice), Message_delete note0 (Some 30)]"
    by (simp add: send_bookmark_def send_bookmark_except_def a c [unfolded ch] ch emit_def)
  from dm_error_notifies_in_channel [OF a' b c, where em = "emoji add_payload"]
  have "snd (send_bookmark const0 host_closed_dm alice msg0 emb0 (emoji add_payload)) = Inr ()"
    by (simp add: d)
  with f have "send_bookmark const0 host_closed_dm alice msg0 emb0 (emoji add_payload) =
     ([User_send alice emb0, Log_error (Cannot_send_a_DM (user_name alice) Forbidden),
       Channel_send chan0 (notify_text alice), Message_delete note0 (Some 30)], Inr ())"
    by (simp add: prod_eq_iff)
  with a b c show ?thesis by simp
qed

end
